theory Spec2Isabelle
  imports Main "HOL-Library.AList"
begin

section \<open>Values exchanged with the extension host\<close>

text \<open>
  The bridge \<^verbatim>\<open>MainThreadTextEditors\<close> of
  \<^verbatim>\<open>src/vs/workbench/api/browser/mainThreadEditors.ts\<close> sits between the workbench
  (editor service, editor group service, code editor service, editor locator) and the
  extension host proxy. Handles, resources and keys are strings; columns, line numbers
  and version ids are JavaScript numbers used as integers.
\<close>

type_synonym EditorGroupColumn = int
type_synonym URI = string
type_synonym IDisposable = nat
type_synonym IRange = "int \<times> int \<times> int \<times> int"
type_synonym ISelection = "int \<times> int \<times> int \<times> int"
type_synonym IChange = "int \<times> int \<times> int \<times> int"
type_synonym ITextEditorChange = "int \<times> int \<times> int \<times> int"
type_synonym IDecorationOptions = "IRange \<times> string"
type_synonym IDecorationRenderOptions = string
type_synonym ISingleEditOperation = "IRange \<times> string"
type_synonym ITextEditorConfigurationUpdate = "(string \<times> int) list"
type_synonym IApplyEditsOptions = "bool \<times> bool"
type_synonym IUndoStopOptions = "bool \<times> bool"
type_synonym TextEditorRevealType = nat
type_synonym IEditorPropertiesChangeData = string

text \<open>
  \<^verbatim>\<open>ITextEditorPositionData\<close> is an object without prototype
  (\<^verbatim>\<open>Object.create(null)\<close>) used as a dictionary from handle to column.
\<close>

type_synonym ITextEditorPositionData = "string \<rightharpoonup> EditorGroupColumn"

record ITextEditorDiffInformation =
  documentVersion :: int
  di_original :: URI
  di_modified :: URI
  di_changes :: "ITextEditorChange list"

text \<open>A rejected promise carries one of the two errors the file creates.\<close>

datatype error =
    IllegalArgument string
  | PlainError string

text \<open>The three notifications of \<^verbatim>\<open>ExtHostEditorsShape\<close> the bridge sends.\<close>

datatype ext_call =
    AcceptEditorPositionData ITextEditorPositionData
  | AcceptEditorPropertiesChanged string IEditorPropertiesChangeData
  | AcceptEditorDiffInformation string "ITextEditorDiffInformation option"

section \<open>The workbench objects the bridge talks to\<close>

record ITextModel =
  tm_uri :: URI
  tm_versionId :: int
  tm_value :: string

record ICodeEditor =
  ce_id :: string
  ce_contributions :: "string \<rightharpoonup> IChange list"

record IDiffEditor =
  originalEditorId :: string
  modifiedEditorId :: string
  lineChanges :: "IChange list option"

record IEditorPane =
  pane_group :: nat
  pane_input :: string
  pane_control :: nat

text \<open>
  Modelled from the spec: \<^verbatim>\<open>MainThreadTextEditor\<close> (\<^verbatim>\<open>mainThreadEditor.ts\<close>) is not
  among the sources. The record holds what the spec's command table says the commands
  change: the selection ranges, the decoration ranges under a key (verbose and
  fast-encoded form), the last revealed range, the configuration, and the model with
  its version.
\<close>

record MainThreadTextEditor =
  ed_id :: string
  ed_model :: ITextModel
  ed_codeEditor :: "ICodeEditor option"
  ed_selections :: "ISelection list"
  ed_decorations :: "string \<rightharpoonup> IDecorationOptions list"
  ed_decorationsFast :: "string \<rightharpoonup> int list"
  ed_revealed :: "(IRange \<times> TextEditorRevealType) option"
  ed_configuration :: "ITextEditorConfigurationUpdate option"

datatype editorModel =
    TextModel ITextModel
  | DiffEditorModel ITextModel ITextModel

record editorChanges =
  ec_original :: URI
  ec_modified :: URI
  ec_changes :: "((int \<times> int) \<times> (int \<times> int)) list"

text \<open>
  A listener is a closure registered at an emitter of the workbench. The closures of the
  file capture the bridge (here: its instance id) and, for the two listeners of
  \<^verbatim>\<open>handleTextEditorAdded\<close>, the handle \<^verbatim>\<open>id\<close>. The autorun over the derived diff
  information also records whether the editor had a code editor when the observable
  was built (without one the observable is the constant \<^verbatim>\<open>undefined\<close>) and the value
  the derived observable last produced.
\<close>

datatype listener_kind =
    OnDidVisibleEditorsChange
  | OnDidRemoveGroup
  | OnDidMoveGroup
  | OnPropertiesChanged string
  | DiffAutorun string bool "ITextEditorDiffInformation option"

record listener =
  l_owner :: string
  l_kind :: listener_kind

datatype host_call =
    OpenEditor URI bool nat
  | CloseEditor nat string

text \<open>
  Everything outside the bridge object. The functions \<^verbatim>\<open>editorGroupToColumn\<close>,
  \<^verbatim>\<open>columnToEditorGroup\<close>, \<^verbatim>\<open>MainThreadTextEditor.matches\<close>, the resource comparison of
  the uri identity service, the editing engine behind \<^verbatim>\<open>applyEdits\<close> and the whole of
  \<^verbatim>\<open>insertSnippet\<close> are not among the sources and the spec does not define them: they
  are parameters of the world. The two observables \<^verbatim>\<open>editorModelObs\<close> and
  \<^verbatim>\<open>editorChangesObs\<close> of \<^verbatim>\<open>_getTextEditorDiffInformation\<close> are read through their
  current values, kept per editor handle.
\<close>

record world =
  INSTANCE_COUNT :: nat
  editors :: "string \<rightharpoonup> MainThreadTextEditor"
  findTextEditorIdFor :: "IEditorPane \<Rightarrow> string option"
  visibleEditorPanes :: "IEditorPane list"
  editorGroupToColumn :: "nat \<Rightarrow> EditorGroupColumn"
  columnToEditorGroup :: "EditorGroupColumn option \<Rightarrow> nat"
  matches :: "MainThreadTextEditor \<Rightarrow> IEditorPane \<Rightarrow> bool"
  uriIsEqual :: "URI \<Rightarrow> URI \<Rightarrow> bool"
  executeEdits :: "ISingleEditOperation list \<Rightarrow> IApplyEditsOptions
     \<Rightarrow> MainThreadTextEditor \<Rightarrow> bool \<times> MainThreadTextEditor"
  insertSnippetImpl :: "int \<Rightarrow> string \<Rightarrow> IRange list \<Rightarrow> IUndoStopOptions
     \<Rightarrow> MainThreadTextEditor \<Rightarrow> bool \<times> MainThreadTextEditor"
  hostCalls :: "host_call list"
  decorationTypes :: "string \<rightharpoonup> (string \<times> IDecorationRenderOptions)"
  diffEditors :: "IDiffEditor list"
  listeners :: "(IDisposable \<times> listener) list"
  nextDisposable :: nat
  editorModelObs :: "string \<Rightarrow> editorModel option"
  editorChangesObs :: "string \<Rightarrow> editorChanges option"

section \<open>The bridge object\<close>

record MainThreadTextEditors =
  instanceId :: string
  proxy :: "ext_call list"
  toDispose :: "IDisposable list"
  textEditorsListenersMap :: "(string \<times> IDisposable list) list"
  editorPositionData :: "ITextEditorPositionData option"
  registeredDecorationTypes :: "(string \<times> bool) list"

subsection \<open>Instance identifiers\<close>

text \<open>
  \<^verbatim>\<open>String(++MainThreadTextEditors.INSTANCE_COUNT)\<close>: the decimal numeral of the
  incremented counter (the counter is a JavaScript number; below \<open>2^53\<close> it is exact
  and \<^verbatim>\<open>String\<close> prints all its digits).
\<close>

definition digit :: "nat \<Rightarrow> char" where
  "digit d = ''0123456789'' ! d"

function String_of :: "nat \<Rightarrow> string" where
  "String_of n = (if n < 10 then [digit n] else String_of (n div 10) @ [digit (n mod 10)])"
  by pat_completeness auto
termination
  by (relation "measure id") auto

declare String_of.simps [simp del]

text \<open>The template literal \<^verbatim>\<open>`${this._instanceId}-${key}`\<close>.\<close>

definition namespaced :: "string \<Rightarrow> string \<Rightarrow> string" where
  "namespaced iid key = iid @ ''-'' @ key"

subsection \<open>Subscriptions\<close>

text \<open>
  Modelled from the spec: \<^verbatim>\<open>Event\<close>, \<^verbatim>\<open>IDisposable\<close>, \<^verbatim>\<open>dispose\<close> and
  \<^verbatim>\<open>DisposableStore\<close> (\<^verbatim>\<open>lifecycle.js\<close>) are not among the sources. Subscribing
  registers the closure at the emitter and returns a fresh disposable; disposing a
  disposable releases its closure, and disposing one that is already released, or
  \<^verbatim>\<open>undefined\<close>, does nothing.
\<close>

definition subscribe :: "listener \<Rightarrow> world \<Rightarrow> IDisposable \<times> world" where
  "subscribe l w =
     (nextDisposable w,
      w\<lparr>listeners := listeners w @ [(nextDisposable w, l)],
        nextDisposable := Suc (nextDisposable w)\<rparr>)"

text \<open>
  Modelled from the spec: \<^verbatim>\<open>IDisposable.dispose\<close> is not among the sources; it releases
  the closure registered under the disposable, so that no event reaches it any more.
\<close>

definition dispose1 :: "IDisposable \<Rightarrow> world \<Rightarrow> world" where
  "dispose1 d w = w\<lparr>listeners := filter (\<lambda>p. fst p \<noteq> d) (listeners w)\<rparr>"

text \<open>
  Modelled from the spec: \<^verbatim>\<open>dispose\<close> of \<^verbatim>\<open>lifecycle.js\<close> on an array, and
  \<^verbatim>\<open>DisposableStore.dispose\<close>, are not among the sources; they dispose every member.
\<close>

definition dispose_all :: "IDisposable list \<Rightarrow> world \<Rightarrow> world" where
  "dispose_all ds w = fold dispose1 ds w"

text \<open>
  Modelled from the spec: \<^verbatim>\<open>dispose\<close> of \<^verbatim>\<open>lifecycle.js\<close> on the entry of a dictionary
  is not among the sources; on \<^verbatim>\<open>undefined\<close>, the entry of a key the dictionary does not
  have, it does nothing.
\<close>

definition dispose_opt :: "IDisposable list option \<Rightarrow> world \<Rightarrow> world" where
  "dispose_opt b w = (case b of None \<Rightarrow> w | Some ds \<Rightarrow> dispose_all ds w)"

subsection \<open>Construction\<close>

text \<open>
  The constructor: the instance id from the incremented static counter, empty
  dictionaries, no position data yet (\<^verbatim>\<open>null\<close>), and the three listeners at the editor
  service and the editor group service, kept in the store \<^verbatim>\<open>_toDispose\<close>.
\<close>

definition new_bridge :: "world \<Rightarrow> MainThreadTextEditors \<times> world" where
  "new_bridge w =
     (let n = Suc (INSTANCE_COUNT w);
          iid = String_of n;
          w0 = w\<lparr>INSTANCE_COUNT := n\<rparr>;
          (d1, w1) = subscribe \<lparr>l_owner = iid, l_kind = OnDidVisibleEditorsChange\<rparr> w0;
          (d2, w2) = subscribe \<lparr>l_owner = iid, l_kind = OnDidRemoveGroup\<rparr> w1;
          (d3, w3) = subscribe \<lparr>l_owner = iid, l_kind = OnDidMoveGroup\<rparr> w2
      in (\<lparr>instanceId = iid, proxy = [], toDispose = [d1, d2, d3],
           textEditorsListenersMap = [], editorPositionData = None,
           registeredDecorationTypes = []\<rparr>, w3))"

subsection \<open>Position synchronisation\<close>

text \<open>
  \<^verbatim>\<open>_getTextEditorPositionData\<close>: one pass over the visible panes; \<^verbatim>\<open>if (id)\<close> is
  JavaScript truthiness, so \<^verbatim>\<open>undefined\<close> and the empty string are both skipped.
\<close>

definition positionStep :: "world \<Rightarrow> IEditorPane \<Rightarrow> ITextEditorPositionData \<Rightarrow> ITextEditorPositionData" where
  "positionStep w editorPane result =
     (case findTextEditorIdFor w editorPane of
        None \<Rightarrow> result
      | Some id' \<Rightarrow>
          if id' \<noteq> [] then result(id' \<mapsto> editorGroupToColumn w (pane_group editorPane))
          else result)"

definition getTextEditorPositionData :: "world \<Rightarrow> ITextEditorPositionData" where
  "getTextEditorPositionData w = fold (positionStep w) (visibleEditorPanes w) Map.empty"

text \<open>
  Modelled from the spec: \<^verbatim>\<open>equals\<close> of \<^verbatim>\<open>objects.js\<close> is not among the sources; the
  spec calls it deep (structural, value) equality. On a dictionary or \<^verbatim>\<open>null\<close> that is
  equality of the option of the finite map.
\<close>

definition objectEquals :: "ITextEditorPositionData option \<Rightarrow> ITextEditorPositionData option \<Rightarrow> bool" where
  "objectEquals one other = (one = other)"

definition updateActiveAndVisibleTextEditors ::
  "MainThreadTextEditors \<times> world \<Rightarrow> MainThreadTextEditors \<times> world" where
  "updateActiveAndVisibleTextEditors bw =
     (let b = fst bw; w = snd bw;
          editorPositionData' = getTextEditorPositionData w
      in if \<not> objectEquals (editorPositionData b) (Some editorPositionData')
         then (b\<lparr>editorPositionData := Some editorPositionData',
                 proxy := proxy b @ [AcceptEditorPositionData editorPositionData']\<rparr>, w)
         else (b, w))"

text \<open>
  A notification of the workbench reaches the bridge through the listener the
  constructor registered for it, as long as that listener has not been released.
\<close>

datatype notification = VisibleEditorsChanged | GroupRemoved | GroupMoved

fun kind_of :: "notification \<Rightarrow> listener_kind" where
  "kind_of VisibleEditorsChanged = OnDidVisibleEditorsChange"
| "kind_of GroupRemoved = OnDidRemoveGroup"
| "kind_of GroupMoved = OnDidMoveGroup"

definition subscribed :: "MainThreadTextEditors \<Rightarrow> world \<Rightarrow> listener_kind \<Rightarrow> bool" where
  "subscribed b w k =
     (\<lparr>l_owner = instanceId b, l_kind = k\<rparr> \<in> snd ` set (listeners w))"

definition fire :: "notification \<Rightarrow> MainThreadTextEditors \<times> world \<Rightarrow> MainThreadTextEditors \<times> world" where
  "fire n bw =
     (if subscribed (fst bw) (snd bw) (kind_of n) then updateActiveAndVisibleTextEditors bw
      else bw)"

text \<open>
  Between two notifications the workbench changes on its own: the visible panes, the
  handles the locator knows and the columns of the groups.
\<close>

record layout =
  lay_panes :: "IEditorPane list"
  lay_find :: "IEditorPane \<Rightarrow> string option"
  lay_column :: "nat \<Rightarrow> EditorGroupColumn"

definition setLayout :: "layout \<Rightarrow> world \<Rightarrow> world" where
  "setLayout l w = w\<lparr>visibleEditorPanes := lay_panes l, findTextEditorIdFor := lay_find l,
                     editorGroupToColumn := lay_column l\<rparr>"

definition notify :: "layout \<times> notification \<Rightarrow> MainThreadTextEditors \<times> world \<Rightarrow> MainThreadTextEditors \<times> world" where
  "notify ln bw = fire (snd ln) (fst bw, setLayout (fst ln) (snd bw))"

definition notifyAll :: "(layout \<times> notification) list \<Rightarrow> MainThreadTextEditors \<times> world \<Rightarrow> MainThreadTextEditors \<times> world" where
  "notifyAll lns bw = fold notify lns bw"

text \<open>The payload of the last position-data notification in a log of proxy calls.\<close>

fun lastPositionData :: "ext_call list \<Rightarrow> ITextEditorPositionData option" where
  "lastPositionData [] = None"
| "lastPositionData (c # cs) =
     (case lastPositionData cs of
        Some m \<Rightarrow> Some m
      | None \<Rightarrow> (case c of AcceptEditorPositionData m \<Rightarrow> Some m | _ \<Rightarrow> None))"

definition layoutPositionData :: "layout \<Rightarrow> world \<Rightarrow> ITextEditorPositionData" where
  "layoutPositionData l w = getTextEditorPositionData (setLayout l w)"

subsection \<open>Diff information\<close>

text \<open>
  The body of the derived observable at the end of \<^verbatim>\<open>_getTextEditorDiffInformation\<close>:
  from the current editor model and the current changes, the value sent to the peer.
\<close>

definition diffInformationOf ::
  "editorModel option \<Rightarrow> editorChanges option \<Rightarrow> ITextEditorDiffInformation option" where
  "diffInformationOf em ec =
     (case em of
        None \<Rightarrow> None
      | Some editorModel \<Rightarrow>
         (case ec of
            None \<Rightarrow> None
          | Some editorChanges \<Rightarrow>
              Some \<lparr>documentVersion =
                      (case editorModel of
                         TextModel m \<Rightarrow> tm_versionId m
                       | DiffEditorModel orig md \<Rightarrow> tm_versionId md),
                    di_original = ec_original editorChanges,
                    di_modified = ec_modified editorChanges,
                    di_changes =
                      map (\<lambda>change. (fst (fst change), snd (fst change),
                                     fst (snd change), snd (snd change)))
                          (ec_changes editorChanges)\<rparr>))"

text \<open>
  The value of the observable \<^verbatim>\<open>_getTextEditorDiffInformation\<close> returns for an editor:
  constantly \<^verbatim>\<open>undefined\<close> when the editor had no code editor.
\<close>

definition getTextEditorDiffInformation ::
  "bool \<Rightarrow> string \<Rightarrow> world \<Rightarrow> ITextEditorDiffInformation option" where
  "getTextEditorDiffInformation hasCodeEditor h w =
     (if \<not> hasCodeEditor then None
      else diffInformationOf (editorModelObs w h) (editorChangesObs w h))"


subsection \<open>Editor added and removed, dispose\<close>

text \<open>
  \<^verbatim>\<open>handleTextEditorAdded\<close>: the listener for property changes, then the autorun over
  the diff information, which runs once as it is created and forwards the current
  value (its later runs are \<open>recompute\<close> below); both disposables become the entry of
  the listener map for the handle, replacing an entry that was there.
\<close>

definition handleTextEditorAdded ::
  "MainThreadTextEditor \<Rightarrow> MainThreadTextEditors \<times> world \<Rightarrow> MainThreadTextEditors \<times> world" where
  "handleTextEditorAdded textEditor bw =
     (let b = fst bw; w = snd bw;
          id' = ed_id textEditor;
          (d1, w1) = subscribe \<lparr>l_owner = instanceId b, l_kind = OnPropertiesChanged id'\<rparr> w;
          hasCodeEditor = (ed_codeEditor textEditor \<noteq> None);
          diffInformation = getTextEditorDiffInformation hasCodeEditor id' w1;
          (d2, w2) = subscribe \<lparr>l_owner = instanceId b,
                                l_kind = DiffAutorun id' hasCodeEditor diffInformation\<rparr> w1
      in (b\<lparr>proxy := proxy b @ [AcceptEditorDiffInformation id' diffInformation],
            textEditorsListenersMap := AList.update id' [d1, d2] (textEditorsListenersMap b)\<rparr>,
          w2))"


text \<open>
  Modelled from the spec: the code editor service is not among the sources. It is the
  rendering service shared by all bridges, a registry of decoration types by key:
  registering adds or replaces the registration of the key, removing deletes it.
\<close>

definition registerDecorationType ::
  "string \<Rightarrow> string \<Rightarrow> IDecorationRenderOptions \<Rightarrow> world \<Rightarrow> world" where
  "registerDecorationType description key options w =
     w\<lparr>decorationTypes := (decorationTypes w)(key \<mapsto> (description, options))\<rparr>"

text \<open>
  Modelled from the spec: \<^verbatim>\<open>removeDecorationType\<close> of the code editor service is not
  among the sources; it deletes the registration of the key.
\<close>

definition removeDecorationType :: "string \<Rightarrow> world \<Rightarrow> world" where
  "removeDecorationType key w = w\<lparr>decorationTypes := (decorationTypes w)(key := None)\<rparr>"

text \<open>
  \<^verbatim>\<open>dispose\<close>, statement by statement: every entry of the listener map is disposed and
  the map reset, the store is disposed, every key of the decoration registry is removed
  from the code editor service and the registry reset.
\<close>

definition dispose :: "MainThreadTextEditors \<times> world \<Rightarrow> MainThreadTextEditors \<times> world" where
  "dispose bw =
     (let b = fst bw; w = snd bw;
          w1 = fold (\<lambda>editorId. dispose_opt (map_of (textEditorsListenersMap b) editorId))
                    (map fst (textEditorsListenersMap b)) w;
          b1 = b\<lparr>textEditorsListenersMap := []\<rparr>;
          w2 = dispose_all (toDispose b1) w1;
          b2 = b1\<lparr>toDispose := []\<rparr>;
          w3 = fold removeDecorationType (map fst (registeredDecorationTypes b2)) w2;
          b3 = b2\<lparr>registeredDecorationTypes := []\<rparr>
      in (b3, w3))"

subsection \<open>Events of the editors\<close>










section \<open>Commands from the extension host\<close>

text \<open>
  A command returns a promise: \<open>Inl\<close> is the rejection, \<open>Inr\<close> the value it resolves
  to. \<^verbatim>\<open>this._editorLocator.getEditor(id)\<close> is the lookup \<open>editors w id\<close>; a command
  that changes the editor it found writes the changed editor back under the handle.
\<close>

type_synonym 'a command_result = "(error + 'a) \<times> (MainThreadTextEditors \<times> world)"

text \<open>
  Modelled from the spec: \<^verbatim>\<open>illegalArgument\<close> (\<^verbatim>\<open>errors.js\<close>) is not among the sources;
  it makes the illegal-argument condition that names its argument.
\<close>

definition illegalArgument :: "string \<Rightarrow> error" where
  "illegalArgument name = IllegalArgument name"

text \<open>The template literal \<^verbatim>\<open>`TextEditor(${id})`\<close>.\<close>

definition textEditorName :: "string \<Rightarrow> string" where
  "textEditorName id' = ''TextEditor('' @ id' @ '')''"

definition putEditor :: "string \<Rightarrow> MainThreadTextEditor \<Rightarrow> world \<Rightarrow> world" where
  "putEditor id' editor w = w\<lparr>editors := (editors w)(id' \<mapsto> editor)\<rparr>"

text \<open>
  Modelled from the spec: the setters of \<^verbatim>\<open>MainThreadTextEditor\<close> are not among the
  sources. After the command table of the spec, each replaces what it names: the
  selection ranges, the decoration ranges under the key, the revealed range, the
  configuration.
\<close>

definition setSelections :: "ISelection list \<Rightarrow> MainThreadTextEditor \<Rightarrow> MainThreadTextEditor" where
  "setSelections selections editor = editor\<lparr>ed_selections := selections\<rparr>"

definition setDecorations ::
  "string \<Rightarrow> IDecorationOptions list \<Rightarrow> MainThreadTextEditor \<Rightarrow> MainThreadTextEditor" where
  "setDecorations key ranges editor =
     editor\<lparr>ed_decorations := (ed_decorations editor)(key \<mapsto> ranges)\<rparr>"

definition setDecorationsFast ::
  "string \<Rightarrow> int list \<Rightarrow> MainThreadTextEditor \<Rightarrow> MainThreadTextEditor" where
  "setDecorationsFast key ranges editor =
     editor\<lparr>ed_decorationsFast := (ed_decorationsFast editor)(key \<mapsto> ranges)\<rparr>"

definition revealRange ::
  "IRange \<Rightarrow> TextEditorRevealType \<Rightarrow> MainThreadTextEditor \<Rightarrow> MainThreadTextEditor" where
  "revealRange range' revealType editor = editor\<lparr>ed_revealed := Some (range', revealType)\<rparr>"

definition setConfiguration ::
  "ITextEditorConfigurationUpdate \<Rightarrow> MainThreadTextEditor \<Rightarrow> MainThreadTextEditor" where
  "setConfiguration options editor = editor\<lparr>ed_configuration := Some options\<rparr>"

text \<open>
  Modelled from the spec: \<^verbatim>\<open>MainThreadTextEditor.applyEdits\<close> is not among the sources.
  The spec conditions the edits on the expected model version: on a version other than
  the model's it returns \<^verbatim>\<open>false\<close> and does not touch the model; otherwise the editing
  engine applies the edits and says whether it did.
\<close>

definition applyEdits ::
  "world \<Rightarrow> int \<Rightarrow> ISingleEditOperation list \<Rightarrow> IApplyEditsOptions
     \<Rightarrow> MainThreadTextEditor \<Rightarrow> bool \<times> MainThreadTextEditor" where
  "applyEdits w versionIdCheck edits opts editor =
     (if tm_versionId (ed_model editor) \<noteq> versionIdCheck then (False, editor)
      else executeEdits w edits opts editor)"

text \<open>
  Modelled from the spec: \<^verbatim>\<open>MainThreadTextEditor.insertSnippet\<close> is not among the sources,
  and the spec says only that it returns a success flag: it is the parameter of the world.
\<close>

definition insertSnippet ::
  "world \<Rightarrow> int \<Rightarrow> string \<Rightarrow> IRange list \<Rightarrow> IUndoStopOptions
     \<Rightarrow> MainThreadTextEditor \<Rightarrow> bool \<times> MainThreadTextEditor" where
  "insertSnippet w modelVersionId template ranges opts editor =
     insertSnippetImpl w modelVersionId template ranges opts editor"

text \<open>
  \<^verbatim>\<open>$tryShowEditor\<close> and \<^verbatim>\<open>$tryHideEditor\<close>. The calls to the editor service and to the
  group of the pane are recorded in \<open>hostCalls\<close>.
\<close>

definition tryShowEditor ::
  "string \<Rightarrow> EditorGroupColumn option \<Rightarrow> MainThreadTextEditors \<times> world \<Rightarrow> unit command_result" where
  "tryShowEditor id' position bw =
     (let b = fst bw; w = snd bw in
      case editors w id' of
        Some mainThreadEditor \<Rightarrow>
          (Inr (),
           (b, w\<lparr>hostCalls := hostCalls w @
                   [OpenEditor (tm_uri (ed_model mainThreadEditor)) False
                      (columnToEditorGroup w position)]\<rparr>))
      | None \<Rightarrow> (Inr (), bw))"

definition tryHideEditor ::
  "string \<Rightarrow> MainThreadTextEditors \<times> world \<Rightarrow> unit command_result" where
  "tryHideEditor id' bw =
     (let b = fst bw; w = snd bw in
      case editors w id' of
        Some mainThreadEditor \<Rightarrow>
          (case find (matches w mainThreadEditor) (visibleEditorPanes w) of
             Some editorPane \<Rightarrow>
               (Inr (),
                (b, w\<lparr>hostCalls := hostCalls w @
                        [CloseEditor (pane_group editorPane) (pane_input editorPane)]\<rparr>))
           | None \<Rightarrow> (Inr (), bw))
      | None \<Rightarrow> (Inr (), bw))"

definition trySetSelections ::
  "string \<Rightarrow> ISelection list \<Rightarrow> MainThreadTextEditors \<times> world \<Rightarrow> unit command_result" where
  "trySetSelections id' selections bw =
     (case editors (snd bw) id' of
        None \<Rightarrow> (Inl (illegalArgument (textEditorName id')), bw)
      | Some editor \<Rightarrow>
          (Inr (), (fst bw, putEditor id' (setSelections selections editor) (snd bw))))"

definition trySetDecorations ::
  "string \<Rightarrow> string \<Rightarrow> IDecorationOptions list \<Rightarrow> MainThreadTextEditors \<times> world
     \<Rightarrow> unit command_result" where
  "trySetDecorations id' key ranges bw =
     (let key' = namespaced (instanceId (fst bw)) key in
      case editors (snd bw) id' of
        None \<Rightarrow> (Inl (illegalArgument (textEditorName id')), bw)
      | Some editor \<Rightarrow>
          (Inr (), (fst bw, putEditor id' (setDecorations key' ranges editor) (snd bw))))"

definition trySetDecorationsFast ::
  "string \<Rightarrow> string \<Rightarrow> int list \<Rightarrow> MainThreadTextEditors \<times> world \<Rightarrow> unit command_result" where
  "trySetDecorationsFast id' key ranges bw =
     (let key' = namespaced (instanceId (fst bw)) key in
      case editors (snd bw) id' of
        None \<Rightarrow> (Inl (illegalArgument (textEditorName id')), bw)
      | Some editor \<Rightarrow>
          (Inr (), (fst bw, putEditor id' (setDecorationsFast key' ranges editor) (snd bw))))"

definition tryRevealRange ::
  "string \<Rightarrow> IRange \<Rightarrow> TextEditorRevealType \<Rightarrow> MainThreadTextEditors \<times> world
     \<Rightarrow> unit command_result" where
  "tryRevealRange id' range' revealType bw =
     (case editors (snd bw) id' of
        None \<Rightarrow> (Inl (illegalArgument (textEditorName id')), bw)
      | Some editor \<Rightarrow>
          (Inr (), (fst bw, putEditor id' (revealRange range' revealType editor) (snd bw))))"

definition trySetOptions ::
  "string \<Rightarrow> ITextEditorConfigurationUpdate \<Rightarrow> MainThreadTextEditors \<times> world
     \<Rightarrow> unit command_result" where
  "trySetOptions id' options bw =
     (case editors (snd bw) id' of
        None \<Rightarrow> (Inl (illegalArgument (textEditorName id')), bw)
      | Some editor \<Rightarrow>
          (Inr (), (fst bw, putEditor id' (setConfiguration options editor) (snd bw))))"

definition tryApplyEdits ::
  "string \<Rightarrow> int \<Rightarrow> ISingleEditOperation list \<Rightarrow> IApplyEditsOptions
     \<Rightarrow> MainThreadTextEditors \<times> world \<Rightarrow> bool command_result" where
  "tryApplyEdits id' modelVersionId edits opts bw =
     (case editors (snd bw) id' of
        None \<Rightarrow> (Inl (illegalArgument (textEditorName id')), bw)
      | Some editor \<Rightarrow>
          (let r = applyEdits (snd bw) modelVersionId edits opts editor
           in (Inr (fst r), (fst bw, putEditor id' (snd r) (snd bw)))))"

definition tryInsertSnippet ::
  "string \<Rightarrow> int \<Rightarrow> string \<Rightarrow> IRange list \<Rightarrow> IUndoStopOptions
     \<Rightarrow> MainThreadTextEditors \<times> world \<Rightarrow> bool command_result" where
  "tryInsertSnippet id' modelVersionId template ranges opts bw =
     (case editors (snd bw) id' of
        None \<Rightarrow> (Inl (illegalArgument (textEditorName id')), bw)
      | Some editor \<Rightarrow>
          (let r = insertSnippet (snd bw) modelVersionId template ranges opts editor
           in (Inr (fst r), (fst bw, putEditor id' (snd r) (snd bw)))))"

text \<open>
  \<^verbatim>\<open>$registerTextEditorDecorationType\<close> and \<^verbatim>\<open>$removeTextEditorDecorationType\<close>; an
  \<^verbatim>\<open>ExtensionIdentifier\<close> is printed as its string in the description.
\<close>

definition registerTextEditorDecorationType ::
  "string \<Rightarrow> string \<Rightarrow> IDecorationRenderOptions \<Rightarrow> MainThreadTextEditors \<times> world
     \<Rightarrow> MainThreadTextEditors \<times> world" where
  "registerTextEditorDecorationType extensionId key options bw =
     (let key' = namespaced (instanceId (fst bw)) key
      in ((fst bw)\<lparr>registeredDecorationTypes :=
                     AList.update key' True (registeredDecorationTypes (fst bw))\<rparr>,
          registerDecorationType (''exthost-api-'' @ extensionId) key' options (snd bw)))"

definition removeTextEditorDecorationType ::
  "string \<Rightarrow> MainThreadTextEditors \<times> world \<Rightarrow> MainThreadTextEditors \<times> world" where
  "removeTextEditorDecorationType key bw =
     (let key' = namespaced (instanceId (fst bw)) key
      in ((fst bw)\<lparr>registeredDecorationTypes :=
                     AList.delete key' (registeredDecorationTypes (fst bw))\<rparr>,
          removeDecorationType key' (snd bw)))"

text \<open>\<^verbatim>\<open>$getDiffInformation\<close>; \<^verbatim>\<open>const [diffEditor] = ...filter(...)\<close> takes the first match.\<close>

definition getDiffInformation ::
  "string \<Rightarrow> MainThreadTextEditors \<times> world \<Rightarrow> (error + IChange list)" where
  "getDiffInformation id' bw =
     (case editors (snd bw) id' of
        None \<Rightarrow> Inl (PlainError ''No such TextEditor'')
      | Some editor \<Rightarrow>
         (case ed_codeEditor editor of
            None \<Rightarrow> Inl (PlainError ''No such CodeEditor'')
          | Some codeEditor \<Rightarrow>
             (case filter (\<lambda>d. originalEditorId d = ce_id codeEditor \<or>
                                modifiedEditorId d = ce_id codeEditor) (diffEditors (snd bw)) of
                diffEditor # rest \<Rightarrow>
                  Inr (case lineChanges diffEditor of None \<Rightarrow> [] | Some cs \<Rightarrow> cs)
              | [] \<Rightarrow>
                 (case ce_contributions codeEditor ''editor.contrib.dirtydiff'' of
                    Some dirtyDiffChanges \<Rightarrow> Inr dirtyDiffChanges
                  | None \<Rightarrow> Inr []))))"


section \<open>Invariants and example states\<close>

text \<open>
  The bridge is in step with its peer when the remembered position data is the payload
  of the last position-data notification it sent (none yet: \<^verbatim>\<open>null\<close>), and the three
  listeners of the constructor are still registered.
\<close>

definition synced :: "MainThreadTextEditors \<times> world \<Rightarrow> bool" where
  "synced bw \<longleftrightarrow>
     editorPositionData (fst bw) = lastPositionData (proxy (fst bw)) \<and>
     (\<forall>n. subscribed (fst bw) (snd bw) (kind_of n))"

text \<open>The filter predicate of \<^verbatim>\<open>$getDiffInformation\<close>: the diff editor shows the code editor.\<close>

definition belongsTo :: "ICodeEditor \<Rightarrow> IDiffEditor \<Rightarrow> bool" where
  "belongsTo codeEditor d \<longleftrightarrow>
     originalEditorId d = ce_id codeEditor \<or> modifiedEditorId d = ce_id codeEditor"

text \<open>
  A small workbench: two visible panes, \<open>A\<close> in column 1 and \<open>B\<close> in column 2, and one
  editor \<open>e1\<close> whose model is at version 6.
\<close>

definition paneA :: IEditorPane where
  "paneA = \<lparr>pane_group = 1, pane_input = ''a.ts'', pane_control = 1\<rparr>"

definition paneB :: IEditorPane where
  "paneB = \<lparr>pane_group = 2, pane_input = ''b.ts'', pane_control = 2\<rparr>"

definition editor1 :: MainThreadTextEditor where
  "editor1 = \<lparr>ed_id = ''e1'',
              ed_model = \<lparr>tm_uri = ''file:///a.ts'', tm_versionId = 6, tm_value = ''let x''\<rparr>,
              ed_codeEditor = Some \<lparr>ce_id = ''c1'', ce_contributions = Map.empty\<rparr>,
              ed_selections = [], ed_decorations = Map.empty, ed_decorationsFast = Map.empty,
              ed_revealed = None, ed_configuration = None\<rparr>"

definition world0 :: world where
  "world0 = \<lparr>INSTANCE_COUNT = 0,
             editors = [''e1'' \<mapsto> editor1],
             findTextEditorIdFor =
               (\<lambda>p. if pane_control p = 1 then Some ''A''
                    else if pane_control p = 2 then Some ''B'' else None),
             visibleEditorPanes = [paneA, paneB],
             editorGroupToColumn = int,
             columnToEditorGroup = (\<lambda>c. case c of None \<Rightarrow> 0 | Some n \<Rightarrow> nat n),
             matches = (\<lambda>e p. False),
             uriIsEqual = (=),
             executeEdits = (\<lambda>edits opts e. (True, e)),
             insertSnippetImpl = (\<lambda>v t rs opts e. (True, e)),
             hostCalls = [],
             decorationTypes = Map.empty,
             diffEditors = [],
             listeners = [],
             nextDisposable = 0,
             editorModelObs = (\<lambda>h. None),
             editorChangesObs = (\<lambda>h. None)\<rparr>"

definition layoutAB :: layout where
  "layoutAB = \<lparr>lay_panes = [paneA, paneB],
               lay_find = (\<lambda>p. if pane_control p = 1 then Some ''A''
                                else if pane_control p = 2 then Some ''B'' else None),
               lay_column = int\<rparr>"

text \<open>The same workbench with a locator that answers every pane with the empty handle.\<close>

definition worldEmptyHandle :: world where
  "worldEmptyHandle = world0\<lparr>findTextEditorIdFor := (\<lambda>p. Some [])\<rparr>"

text \<open>The workbench with a diff editor whose modified side is the code editor of \<open>e1\<close>.\<close>

definition worldDiff :: world where
  "worldDiff = world0\<lparr>diffEditors :=
     [\<lparr>originalEditorId = ''c0'', modifiedEditorId = ''c1'',
       lineChanges = Some [(1, 2, 1, 3)]\<rparr>]\<rparr>"

text \<open>The workbench after a second bridge has registered a decoration type \<open>deco\<close>.\<close>

definition worldRegistered :: world where
  "worldRegistered = world0\<lparr>decorationTypes := [''2-deco'' \<mapsto> (''exthost-api-other'', ''blue'')]\<rparr>"

text \<open>
  A bridge in use: constructed over the small workbench, with the editor \<open>e1\<close> added and
  one decoration type registered.
\<close>

definition bridgeInUse :: "MainThreadTextEditors \<times> world" where
  "bridgeInUse =
     registerTextEditorDecorationType ''ext'' ''deco'' ''red''
       (handleTextEditorAdded editor1 (new_bridge world0))"


















section \<open>Position synchronisation\<close>

lemma lastPositionData_snoc:
  "lastPositionData (cs @ [c]) =
     (case c of AcceptEditorPositionData m \<Rightarrow> Some m | _ \<Rightarrow> lastPositionData cs)"
  by (induction cs) (auto split: option.splits ext_call.splits)

lemma new_bridge_fields:
  "instanceId (fst (new_bridge w)) = String_of (Suc (INSTANCE_COUNT w))"
  "proxy (fst (new_bridge w)) = []"
  "editorPositionData (fst (new_bridge w)) = None"
  "textEditorsListenersMap (fst (new_bridge w)) = []"
  "registeredDecorationTypes (fst (new_bridge w)) = []"
  "toDispose (fst (new_bridge w)) =
     [nextDisposable w, Suc (nextDisposable w), Suc (Suc (nextDisposable w))]"
  "INSTANCE_COUNT (snd (new_bridge w)) = Suc (INSTANCE_COUNT w)"
  by (simp_all add: new_bridge_def subscribe_def Let_def)

lemma new_bridge_listeners:
  "listeners (snd (new_bridge w)) = listeners w @
     [(nextDisposable w,
         \<lparr>l_owner = String_of (Suc (INSTANCE_COUNT w)), l_kind = OnDidVisibleEditorsChange\<rparr>),
      (Suc (nextDisposable w),
         \<lparr>l_owner = String_of (Suc (INSTANCE_COUNT w)), l_kind = OnDidRemoveGroup\<rparr>),
      (Suc (Suc (nextDisposable w)),
         \<lparr>l_owner = String_of (Suc (INSTANCE_COUNT w)), l_kind = OnDidMoveGroup\<rparr>)]"
  by (simp add: new_bridge_def subscribe_def Let_def)

lemma new_bridge_subscribed:
  "subscribed (fst (new_bridge w)) (snd (new_bridge w)) (kind_of n)"
  by (cases n) (simp_all add: subscribed_def new_bridge_fields new_bridge_listeners image_Un)

lemma new_bridge_synced: "synced (new_bridge w)"
  using new_bridge_subscribed by (simp add: synced_def new_bridge_fields)

lemma notify_proxy:
  assumes "synced bw"
  shows "proxy (fst (notify ln bw)) =
     (if Some (layoutPositionData (fst ln) (snd bw)) = lastPositionData (proxy (fst bw))
      then proxy (fst bw)
      else proxy (fst bw) @ [AcceptEditorPositionData (layoutPositionData (fst ln) (snd bw))])"
  using assms
  by (auto simp: synced_def notify_def fire_def updateActiveAndVisibleTextEditors_def Let_def
      objectEquals_def layoutPositionData_def subscribed_def setLayout_def)

lemma notify_synced:
  assumes "synced bw"
  shows "synced (notify ln bw)"
  using assms
  by (auto simp: synced_def notify_def fire_def updateActiveAndVisibleTextEditors_def Let_def
      objectEquals_def layoutPositionData_def subscribed_def setLayout_def lastPositionData_snoc)

lemma notifyAll_synced: "synced bw \<Longrightarrow> synced (notifyAll lns bw)"
  unfolding notifyAll_def by (induction lns arbitrary: bw) (simp_all add: notify_synced)

lemma layoutPositionData_world: "layoutPositionData l w = layoutPositionData l w'"
proof -
  have "positionStep (setLayout l w) = positionStep (setLayout l w')"
    by (intro ext) (simp add: positionStep_def setLayout_def split: option.splits)
  moreover have "visibleEditorPanes (setLayout l w) = visibleEditorPanes (setLayout l w')"
    by (simp add: setLayout_def)
  ultimately show ?thesis
    by (simp add: layoutPositionData_def getTextEditorPositionData_def)
qed

lemma notify_sends_last:
  assumes "synced bw"
  shows "lastPositionData (proxy (fst (notify ln bw))) = Some (layoutPositionData (fst ln) (snd bw))"
  using assms by (simp add: notify_proxy lastPositionData_snoc)

text \<open>
  C1. After any sequence of visible-editors-changed, group-removed and group-moved
  notifications delivered to a freshly constructed bridge, the next notification
  appends a position-data notification to the calls on the peer exactly when the
  mapping computed for the new layout differs from the payload of the last
  position-data notification sent (the first one is always sent, as nothing was sent
  before); and firing again on the same layout, through any of the three events, sends
  nothing.
\<close>

theorem position_data_sent_iff_changed:
  assumes "bw = notifyAll lns (new_bridge w0)"
    and "m = layoutPositionData l (snd bw)"
  shows "proxy (fst (notify (l, n) bw)) =
           (if Some m = lastPositionData (proxy (fst bw)) then proxy (fst bw)
            else proxy (fst bw) @ [AcceptEditorPositionData m]) \<and>
         proxy (fst (notify (l, n') (notify (l, n) bw))) = proxy (fst (notify (l, n) bw))"
proof
  have s: "synced bw"
    unfolding assms(1) by (rule notifyAll_synced) (rule new_bridge_synced)
  from notify_proxy [OF s, of "(l, n)"] assms(2)
  show "proxy (fst (notify (l, n) bw)) =
           (if Some m = lastPositionData (proxy (fst bw)) then proxy (fst bw)
            else proxy (fst bw) @ [AcceptEditorPositionData m])"
    by simp
  have s': "synced (notify (l, n) bw)" using s by (rule notify_synced)
  have "lastPositionData (proxy (fst (notify (l, n) bw))) = Some (layoutPositionData l (snd bw))"
    using notify_sends_last [OF s, of "(l, n)"] by simp
  also have "layoutPositionData l (snd bw) = layoutPositionData l (snd (notify (l, n) bw))"
    by (rule layoutPositionData_world)
  finally show "proxy (fst (notify (l, n') (notify (l, n) bw))) = proxy (fst (notify (l, n) bw))"
    using notify_proxy [OF s', of "(l, n')"] by simp
qed

lemma layoutAB_positionData:
  "layoutPositionData layoutAB w = [''A'' \<mapsto> 1, ''B'' \<mapsto> 2]"
  by (simp add: layoutPositionData_def getTextEditorPositionData_def setLayout_def
      layoutAB_def positionStep_def paneA_def paneB_def)

theorem position_data_sent_iff_changed_witness:
  "proxy (fst (notify (layoutAB, VisibleEditorsChanged) (notifyAll [] (new_bridge world0)))) =
     [AcceptEditorPositionData [''A'' \<mapsto> 1, ''B'' \<mapsto> 2]] \<and>
   proxy (fst (notify (layoutAB, GroupMoved)
     (notify (layoutAB, VisibleEditorsChanged) (notifyAll [] (new_bridge world0))))) =
     [AcceptEditorPositionData [''A'' \<mapsto> 1, ''B'' \<mapsto> 2]]"
proof -
  have p: "proxy (fst (notifyAll [] (new_bridge world0))) = []"
    by (simp add: notifyAll_def new_bridge_fields)
  from position_data_sent_iff_changed
    [of "notifyAll [] (new_bridge world0)" "[]" world0
        "layoutPositionData layoutAB (snd (notifyAll [] (new_bridge world0)))" layoutAB
        VisibleEditorsChanged GroupMoved]
  show ?thesis
    by (simp add: p layoutAB_positionData)
qed

lemma dom_fold_positionStep:
  "dom (fold (positionStep w) panes m) =
     dom m \<union> {h. h \<noteq> [] \<and> (\<exists>pane \<in> set panes. findTextEditorIdFor w pane = Some h)}"
proof (induction panes arbitrary: m)
  case Nil
  then show ?case by simp
next
  case (Cons p ps)
  show ?case
    unfolding fold_simps Cons.IH
    by (auto simp: positionStep_def split: option.splits if_splits)
qed

lemma fold_positionStep_value:
  "fold (positionStep w) panes m h = Some c \<Longrightarrow>
     m h = Some c \<or>
     (\<exists>pane \<in> set panes. findTextEditorIdFor w pane = Some h \<and>
        c = editorGroupToColumn w (pane_group pane))"
proof (induction panes arbitrary: m)
  case Nil
  then show ?case by simp
next
  case (Cons p ps)
  from Cons.prems have "fold (positionStep w) ps (positionStep w p m) h = Some c" by simp
  from Cons.IH [OF this] show ?case
    by (auto simp: positionStep_def split: option.splits if_splits)
qed

text \<open>
  C10. The position mapping has an entry exactly for the non-empty handles the locator
  gives for some visible pane, and the column of each entry is the column of the group
  of such a pane. A pane the locator has no handle for is left out, and so is a pane
  whose handle is the empty string: \<^verbatim>\<open>if (id)\<close> is false for it.
\<close>

theorem position_data_entries:
  "dom (getTextEditorPositionData w) =
     {h. h \<noteq> [] \<and> (\<exists>pane \<in> set (visibleEditorPanes w). findTextEditorIdFor w pane = Some h)} \<and>
   (\<forall>h c. getTextEditorPositionData w h = Some c \<longrightarrow>
      (\<exists>pane \<in> set (visibleEditorPanes w). findTextEditorIdFor w pane = Some h \<and>
         c = editorGroupToColumn w (pane_group pane)))"
proof (intro conjI allI impI)
  show "dom (getTextEditorPositionData w) =
     {h. h \<noteq> [] \<and> (\<exists>pane \<in> set (visibleEditorPanes w). findTextEditorIdFor w pane = Some h)}"
    by (simp add: getTextEditorPositionData_def dom_fold_positionStep)
next
  fix h c
  assume "getTextEditorPositionData w h = Some c"
  then show "\<exists>pane \<in> set (visibleEditorPanes w). findTextEditorIdFor w pane = Some h \<and>
         c = editorGroupToColumn w (pane_group pane)"
    using fold_positionStep_value [of w "visibleEditorPanes w" Map.empty h c]
    by (simp add: getTextEditorPositionData_def)
qed

theorem position_data_entries_witness:
  "dom (getTextEditorPositionData world0) = {''A'', ''B''}"
proof -
  from position_data_entries [of world0]
  have "dom (getTextEditorPositionData world0) =
     {h. h \<noteq> [] \<and> (\<exists>pane \<in> set (visibleEditorPanes world0).
        findTextEditorIdFor world0 pane = Some h)}"
    by (rule conjunct1)
  also have "\<dots> = {''A'', ''B''}"
    by (auto simp: world0_def paneA_def paneB_def)
  finally show ?thesis .
qed

text \<open>
  Without the restriction to non-empty handles the statement fails: with a locator that
  resolves the empty handle for the visible pane \<open>A\<close>, the mapping has no entry at all.
\<close>

theorem empty_handle_omitted_counterexample:
  "visibleEditorPanes worldEmptyHandle = [paneA, paneB] \<and>
   findTextEditorIdFor worldEmptyHandle paneA = Some [] \<and>
   getTextEditorPositionData worldEmptyHandle = Map.empty"
  by (simp add: worldEmptyHandle_def world0_def getTextEditorPositionData_def positionStep_def)

section \<open>Commands on a handle\<close>

text \<open>
  C2. When the locator has no editor for the handle, each of set selections, set
  decorations (verbose and fast form), reveal range, set options, apply edits and insert
  snippet rejects with the illegal-argument error naming \<^verbatim>\<open>TextEditor(id)\<close>, and the
  bridge and the world are returned as they were.
\<close>

theorem unknown_handle_rejected:
  assumes "editors (snd bw) id' = None"
  shows "trySetSelections id' selections bw =
           (Inl (IllegalArgument (''TextEditor('' @ id' @ '')'')), bw) \<and>
         trySetDecorations id' key ranges bw =
           (Inl (IllegalArgument (''TextEditor('' @ id' @ '')'')), bw) \<and>
         trySetDecorationsFast id' key fastRanges bw =
           (Inl (IllegalArgument (''TextEditor('' @ id' @ '')'')), bw) \<and>
         tryRevealRange id' range' revealType bw =
           (Inl (IllegalArgument (''TextEditor('' @ id' @ '')'')), bw) \<and>
         trySetOptions id' options bw =
           (Inl (IllegalArgument (''TextEditor('' @ id' @ '')'')), bw) \<and>
         tryApplyEdits id' modelVersionId edits opts bw =
           (Inl (IllegalArgument (''TextEditor('' @ id' @ '')'')), bw) \<and>
         tryInsertSnippet id' modelVersionId template snippetRanges undoOpts bw =
           (Inl (IllegalArgument (''TextEditor('' @ id' @ '')'')), bw)"
  using assms
  by (simp add: trySetSelections_def trySetDecorations_def trySetDecorationsFast_def
      tryRevealRange_def trySetOptions_def tryApplyEdits_def tryInsertSnippet_def
      illegalArgument_def textEditorName_def Let_def)

lemma world0_missing: "editors (snd (new_bridge world0)) ''missing'' = None"
  by (simp add: new_bridge_def subscribe_def Let_def world0_def)

lemma world0_e1: "editors (snd (new_bridge world0)) ''e1'' = Some editor1"
  by (simp add: new_bridge_def subscribe_def Let_def world0_def)

theorem unknown_handle_rejected_witness:
  "trySetSelections ''missing'' [(1, 1, 1, 5)] (new_bridge world0) =
     (Inl (IllegalArgument ''TextEditor(missing)''), new_bridge world0)"
proof -
  from unknown_handle_rejected [OF world0_missing]
  have "trySetSelections ''missing'' [(1, 1, 1, 5)] (new_bridge world0) =
     (Inl (IllegalArgument (''TextEditor('' @ ''missing'' @ '')'')), new_bridge world0)"
    by (rule conjunct1)
  then show ?thesis by simp
qed

lemma putEditor_same: "editors w id' = Some editor \<Longrightarrow> putEditor id' editor w = w"
  by (simp add: putEditor_def map_upd_triv)

text \<open>
  C3. For a handle the locator resolves, apply edits with an expected version other
  than the version of the editor's model resolves to \<^verbatim>\<open>false\<close> and returns the bridge
  and the world, the model with them, as they were; for a handle it does not resolve
  the command rejects.
\<close>

theorem stale_version_returns_false:
  "(editors (snd bw) id' = Some editor \<and> tm_versionId (ed_model editor) \<noteq> modelVersionId \<longrightarrow>
      tryApplyEdits id' modelVersionId edits opts bw = (Inr False, bw)) \<and>
   (editors (snd bw) id' = None \<longrightarrow>
      tryApplyEdits id' modelVersionId edits opts bw =
        (Inl (IllegalArgument (''TextEditor('' @ id' @ '')'')), bw))"
  by (auto simp: tryApplyEdits_def applyEdits_def putEditor_same illegalArgument_def
      textEditorName_def)

theorem stale_version_returns_false_witness:
  "tryApplyEdits ''e1'' 5 [((1, 1, 1, 1), ''y'')] (False, False) (new_bridge world0) =
     (Inr False, new_bridge world0) \<and>
   tryApplyEdits ''missing'' 5 [((1, 1, 1, 1), ''y'')] (False, False) (new_bridge world0) =
     (Inl (IllegalArgument ''TextEditor(missing)''), new_bridge world0)"
proof -
  have v: "tm_versionId (ed_model editor1) \<noteq> 5" by (simp add: editor1_def)
  from stale_version_returns_false
    [of "new_bridge world0" "''e1''" editor1 5 "[((1, 1, 1, 1), ''y'')]" "(False, False)"]
    world0_e1 v
  have a: "tryApplyEdits ''e1'' 5 [((1, 1, 1, 1), ''y'')] (False, False) (new_bridge world0) =
     (Inr False, new_bridge world0)"
    by blast
  from stale_version_returns_false
    [of "new_bridge world0" "''missing''" editor1 5 "[((1, 1, 1, 1), ''y'')]" "(False, False)"]
    world0_missing
  have "tryApplyEdits ''missing'' 5 [((1, 1, 1, 1), ''y'')] (False, False) (new_bridge world0) =
     (Inl (IllegalArgument (''TextEditor('' @ ''missing'' @ '')'')), new_bridge world0)"
    by blast
  with a show ?thesis by simp
qed

lemma find_None_if: "(\<forall>x \<in> set xs. \<not> P x) \<Longrightarrow> find P xs = None"
  by (induction xs) auto

text \<open>
  C8. When the locator has no editor for the handle, show editor and hide editor resolve
  and change nothing; hide editor also resolves and changes nothing when the editor is
  found and no visible pane matches it.
\<close>

theorem show_hide_silent:
  "(editors (snd bw) id' = None \<longrightarrow>
      tryShowEditor id' position bw = (Inr (), bw) \<and> tryHideEditor id' bw = (Inr (), bw)) \<and>
   (editors (snd bw) id' = Some mainThreadEditor \<and>
    (\<forall>editorPane \<in> set (visibleEditorPanes (snd bw)).
        \<not> matches (snd bw) mainThreadEditor editorPane) \<longrightarrow>
      tryHideEditor id' bw = (Inr (), bw))"
  by (auto simp: tryShowEditor_def tryHideEditor_def Let_def find_None_if)

theorem show_hide_silent_witness:
  "tryShowEditor ''missing'' (Some 2) (new_bridge world0) = (Inr (), new_bridge world0) \<and>
   tryHideEditor ''missing'' (new_bridge world0) = (Inr (), new_bridge world0) \<and>
   tryHideEditor ''e1'' (new_bridge world0) = (Inr (), new_bridge world0)"
proof -
  have nm: "\<forall>editorPane \<in> set (visibleEditorPanes (snd (new_bridge world0))).
        \<not> matches (snd (new_bridge world0)) editor1 editorPane"
    by (simp add: new_bridge_def subscribe_def Let_def world0_def)
  from show_hide_silent [of "new_bridge world0" "''missing''" "Some 2" editor1] world0_missing
  have a: "tryShowEditor ''missing'' (Some 2) (new_bridge world0) = (Inr (), new_bridge world0) \<and>
     tryHideEditor ''missing'' (new_bridge world0) = (Inr (), new_bridge world0)"
    by blast
  from show_hide_silent [of "new_bridge world0" "''e1''" "Some 2" editor1] world0_e1 nm
  have "tryHideEditor ''e1'' (new_bridge world0) = (Inr (), new_bridge world0)"
    by blast
  with a show ?thesis by simp
qed

lemma find_Some_filter: "find P xs = Some d \<Longrightarrow> \<exists>rest. filter P xs = d # rest"
  by (induction xs) (auto split: if_splits)

text \<open>
  C9. Get diff information rejects when the locator has no editor for the handle, and
  when the editor has no code editor. Otherwise it resolves: to the line changes of the
  first diff editor whose original or modified editor is the code editor (the empty
  list when that diff editor has none yet); when there is no such diff editor, to the
  changes of the dirty-diff contribution of the code editor; and to the empty list when
  the code editor has no such contribution.
\<close>

theorem diff_information_cases:
  "(editors (snd bw) id' = None \<longrightarrow>
      getDiffInformation id' bw = Inl (PlainError ''No such TextEditor'')) \<and>
   (editors (snd bw) id' = Some editor \<and> ed_codeEditor editor = None \<longrightarrow>
      getDiffInformation id' bw = Inl (PlainError ''No such CodeEditor'')) \<and>
   (editors (snd bw) id' = Some editor \<and> ed_codeEditor editor = Some codeEditor \<longrightarrow>
      (find (belongsTo codeEditor) (diffEditors (snd bw)) = Some diffEditor \<longrightarrow>
         getDiffInformation id' bw =
           Inr (case lineChanges diffEditor of None \<Rightarrow> [] | Some cs \<Rightarrow> cs)) \<and>
      (find (belongsTo codeEditor) (diffEditors (snd bw)) = None \<longrightarrow>
         getDiffInformation id' bw =
           Inr (case ce_contributions codeEditor ''editor.contrib.dirtydiff'' of
                  None \<Rightarrow> [] | Some cs \<Rightarrow> cs)))"
proof (intro conjI impI)
  show "editors (snd bw) id' = None \<Longrightarrow>
      getDiffInformation id' bw = Inl (PlainError ''No such TextEditor'')"
    by (simp add: getDiffInformation_def)
next
  show "editors (snd bw) id' = Some editor \<and> ed_codeEditor editor = None \<Longrightarrow>
      getDiffInformation id' bw = Inl (PlainError ''No such CodeEditor'')"
    by (simp add: getDiffInformation_def)
next
  assume a: "editors (snd bw) id' = Some editor \<and> ed_codeEditor editor = Some codeEditor"
    and f: "find (belongsTo codeEditor) (diffEditors (snd bw)) = Some diffEditor"
  from find_Some_filter [OF f] obtain rest where
    "filter (belongsTo codeEditor) (diffEditors (snd bw)) = diffEditor # rest" by blast
  then have "filter (\<lambda>d. originalEditorId d = ce_id codeEditor \<or>
                          modifiedEditorId d = ce_id codeEditor)
        (diffEditors (snd bw)) = diffEditor # rest"
    by (simp add: belongsTo_def [abs_def])
  with a show "getDiffInformation id' bw =
           Inr (case lineChanges diffEditor of None \<Rightarrow> [] | Some cs \<Rightarrow> cs)"
    by (simp add: getDiffInformation_def)
next
  assume a: "editors (snd bw) id' = Some editor \<and> ed_codeEditor editor = Some codeEditor"
    and f: "find (belongsTo codeEditor) (diffEditors (snd bw)) = None"
  then have "filter (belongsTo codeEditor) (diffEditors (snd bw)) = []"
    by (simp add: find_None_iff filter_empty_conv)
  then have "filter (\<lambda>d. originalEditorId d = ce_id codeEditor \<or>
                          modifiedEditorId d = ce_id codeEditor)
        (diffEditors (snd bw)) = []"
    by (simp add: belongsTo_def [abs_def])
  with a show "getDiffInformation id' bw =
           Inr (case ce_contributions codeEditor ''editor.contrib.dirtydiff'' of
                  None \<Rightarrow> [] | Some cs \<Rightarrow> cs)"
    by (simp add: getDiffInformation_def split: option.splits)
qed

theorem diff_information_cases_witness:
  "getDiffInformation ''missing'' (new_bridge world0) = Inl (PlainError ''No such TextEditor'') \<and>
   getDiffInformation ''e1'' (new_bridge worldDiff) = Inr [(1, 2, 1, 3)] \<and>
   getDiffInformation ''e1'' (new_bridge world0) = Inr []"
proof -
  let ?ce = "\<lparr>ce_id = ''c1'', ce_contributions = Map.empty\<rparr>"
  let ?d = "\<lparr>originalEditorId = ''c0'', modifiedEditorId = ''c1'',
             lineChanges = Some [(1, 2, 1, 3)]\<rparr>"
  have e: "editors (snd (new_bridge worldDiff)) ''e1'' = Some editor1"
    by (simp add: new_bridge_def subscribe_def Let_def worldDiff_def world0_def)
  have c: "ed_codeEditor editor1 = Some ?ce" by (simp add: editor1_def)
  have f: "find (belongsTo ?ce) (diffEditors (snd (new_bridge worldDiff))) = Some ?d"
    by (simp add: new_bridge_def subscribe_def Let_def worldDiff_def world0_def belongsTo_def)
  have f0: "find (belongsTo ?ce) (diffEditors (snd (new_bridge world0))) = None"
    by (simp add: new_bridge_def subscribe_def Let_def world0_def)
  from diff_information_cases [of "new_bridge world0" "''missing''" editor1 ?ce ?d]
    world0_missing
  have a1: "getDiffInformation ''missing'' (new_bridge world0) =
      Inl (PlainError ''No such TextEditor'')"
    by blast
  from diff_information_cases [of "new_bridge worldDiff" "''e1''" editor1 ?ce ?d] e c f
  have a2: "getDiffInformation ''e1'' (new_bridge worldDiff) =
      Inr (case lineChanges ?d of None \<Rightarrow> [] | Some cs \<Rightarrow> cs)"
    by blast
  from diff_information_cases [of "new_bridge world0" "''e1''" editor1 ?ce ?d] world0_e1 c f0
  have a3: "getDiffInformation ''e1'' (new_bridge world0) =
      Inr (case ce_contributions ?ce ''editor.contrib.dirtydiff'' of
             None \<Rightarrow> [] | Some cs \<Rightarrow> cs)"
    by blast
  from a1 a2 a3 show ?thesis by simp
qed

section \<open>Decoration types\<close>

lemma digit_inj: "a < 10 \<Longrightarrow> b < 10 \<Longrightarrow> digit a = digit b \<Longrightarrow> a = b"
proof -
  assume a: "a < 10" and b: "b < 10" and e: "digit a = digit b"
  have d: "distinct ''0123456789''" by simp
  have "length ''0123456789'' = 10" by simp
  with a b e d show "a = b"
    unfolding digit_def by (metis nth_eq_iff_index_eq)
qed

lemma digit_not_dash: "d < 10 \<Longrightarrow> digit d \<noteq> CHR ''-''"
proof -
  assume "d < 10"
  moreover have "length ''0123456789'' = 10" by simp
  ultimately have "digit d \<in> set ''0123456789''"
    unfolding digit_def by (metis nth_mem)
  then show ?thesis by auto
qed

lemma String_of_not_Nil: "String_of n \<noteq> []"
  by (subst String_of.simps) simp

lemma String_of_no_dash: "CHR ''-'' \<notin> set (String_of n)"
proof (induction n rule: String_of.induct)
  case (1 n)
  show ?case
  proof (cases "n < 10")
    case True
    then show ?thesis using digit_not_dash [of n] by (subst String_of.simps) auto
  next
    case False
    have "n mod 10 < 10" by simp
    then have "digit (n mod 10) \<noteq> CHR ''-''" by (rule digit_not_dash)
    with False 1 show ?thesis by (subst String_of.simps) auto
  qed
qed

lemma String_of_length_one: "length (String_of n) = Suc 0 \<longleftrightarrow> n < 10"
proof (cases "n < 10")
  case True
  then show ?thesis by (subst String_of.simps) simp
next
  case False
  then show ?thesis using String_of_not_Nil [of "n div 10"]
    by (subst String_of.simps) (simp add: Suc_le_eq)
qed

lemma String_of_inj: "String_of n = String_of m \<Longrightarrow> n = m"
proof (induction n arbitrary: m rule: String_of.induct)
  case (1 n)
  show ?case
  proof (cases "n < 10")
    case True
    with "1.prems" have "length (String_of m) = Suc 0" using String_of_length_one by metis
    then have m: "m < 10" by (simp add: String_of_length_one)
    from True m "1.prems" have "digit n = digit m"
      by (simp add: String_of.simps [of n] String_of.simps [of m])
    with True m show ?thesis by (rule digit_inj)
  next
    case False
    with "1.prems" have "length (String_of m) \<noteq> Suc 0" using String_of_length_one by metis
    then have m: "\<not> m < 10" by (simp add: String_of_length_one)
    from False m "1.prems"
    have e: "String_of (n div 10) @ [digit (n mod 10)] = String_of (m div 10) @ [digit (m mod 10)]"
      by (simp add: String_of.simps [of n] String_of.simps [of m])
    then have "String_of (n div 10) = String_of (m div 10)"
      and d: "digit (n mod 10) = digit (m mod 10)"
      by simp_all
    with "1.IH" False have q: "n div 10 = m div 10" by blast
    have "n mod 10 = m mod 10" using d by (intro digit_inj) simp_all
    with q show ?thesis by (metis div_mult_mod_eq)
  qed
qed

lemma takeWhile_namespaced:
  "CHR ''-'' \<notin> set iid \<Longrightarrow> takeWhile (\<lambda>c. c \<noteq> CHR ''-'') (namespaced iid key) = iid"
  unfolding namespaced_def by (induction iid) auto

lemma namespaced_inj:
  assumes "CHR ''-'' \<notin> set i" "CHR ''-'' \<notin> set j" "namespaced i k = namespaced j k'"
  shows "i = j \<and> k = k'"
proof -
  from assms have "i = j" using takeWhile_namespaced by metis
  with assms(3) show ?thesis by (simp add: namespaced_def)
qed

lemma namespaced_String_of_inj:
  "namespaced (String_of i) k = namespaced (String_of j) k' \<Longrightarrow> i = j \<and> k = k'"
  using namespaced_inj [OF String_of_no_dash String_of_no_dash] String_of_inj by blast

text \<open>
  C5. Two bridges constructed at different values of the instance counter (the counter
  only grows, so any two instances are) store different keys in the shared code editor
  service, whatever keys \<open>K\<close> and \<open>K'\<close> they are given, so also for the same key: the key
  stored is the decimal instance id, a dash, and the key. So registering or removing a
  decoration type under \<open>K\<close> through one bridge leaves the registration of the other
  bridge under \<open>K'\<close> as it was, and setting decorations through one bridge changes no
  registration and leaves the decorations an editor holds under the other bridge's key
  as they were.
\<close>

theorem decoration_keys_namespaced:
  assumes "INSTANCE_COUNT wa \<noteq> INSTANCE_COUNT wb"
    and "b = fst (new_bridge wa)" and "b' = fst (new_bridge wb)"
  shows "namespaced (instanceId b) K \<noteq> namespaced (instanceId b') K' \<and>
     map_of (registeredDecorationTypes (fst (registerTextEditorDecorationType ext K options (b, w))))
        (namespaced (instanceId b) K) = Some True \<and>
     decorationTypes (snd (registerTextEditorDecorationType ext K options (b, w)))
        (namespaced (instanceId b) K) = Some (''exthost-api-'' @ ext, options) \<and>
     decorationTypes (snd (registerTextEditorDecorationType ext K options (b, w)))
        (namespaced (instanceId b') K') = decorationTypes w (namespaced (instanceId b') K') \<and>
     decorationTypes (snd (removeTextEditorDecorationType K (b, w)))
        (namespaced (instanceId b') K') = decorationTypes w (namespaced (instanceId b') K') \<and>
     decorationTypes (snd (snd (trySetDecorations h K ranges (b, w)))) = decorationTypes w \<and>
     decorationTypes (snd (snd (trySetDecorationsFast h K fastRanges (b, w)))) = decorationTypes w \<and>
     (\<forall>e e'. editors w h = Some e \<and>
        editors (snd (snd (trySetDecorations h K ranges (b, w)))) h = Some e' \<longrightarrow>
        ed_decorations e' (namespaced (instanceId b') K') =
        ed_decorations e (namespaced (instanceId b') K'))"
proof -
  have ne: "namespaced (instanceId b) K \<noteq> namespaced (instanceId b') K'"
  proof
    assume "namespaced (instanceId b) K = namespaced (instanceId b') K'"
    then have "Suc (INSTANCE_COUNT wa) = Suc (INSTANCE_COUNT wb)"
      using namespaced_String_of_inj by (simp add: assms(2,3) new_bridge_fields) blast
    with assms(1) show False by simp
  qed
  have r1: "map_of (registeredDecorationTypes
        (fst (registerTextEditorDecorationType ext K options (b, w))))
        (namespaced (instanceId b) K) = Some True"
    by (simp add: registerTextEditorDecorationType_def Let_def update_conv')
  have r2: "decorationTypes (snd (registerTextEditorDecorationType ext K options (b, w)))
        (namespaced (instanceId b) K) = Some (''exthost-api-'' @ ext, options)"
    by (simp add: registerTextEditorDecorationType_def Let_def registerDecorationType_def)
  have r3: "decorationTypes (snd (registerTextEditorDecorationType ext K options (b, w)))
        (namespaced (instanceId b') K') = decorationTypes w (namespaced (instanceId b') K')"
    using ne by (simp add: registerTextEditorDecorationType_def Let_def registerDecorationType_def)
  have r4: "decorationTypes (snd (removeTextEditorDecorationType K (b, w)))
        (namespaced (instanceId b') K') = decorationTypes w (namespaced (instanceId b') K')"
    using ne by (simp add: removeTextEditorDecorationType_def Let_def removeDecorationType_def)
  have r5: "decorationTypes (snd (snd (trySetDecorations h K ranges (b, w)))) = decorationTypes w"
    by (simp add: trySetDecorations_def Let_def putEditor_def split: option.splits)
  have r6: "decorationTypes (snd (snd (trySetDecorationsFast h K fastRanges (b, w)))) =
      decorationTypes w"
    by (simp add: trySetDecorationsFast_def Let_def putEditor_def split: option.splits)
  have r7: "\<forall>e e'. editors w h = Some e \<and>
        editors (snd (snd (trySetDecorations h K ranges (b, w)))) h = Some e' \<longrightarrow>
        ed_decorations e' (namespaced (instanceId b') K') =
        ed_decorations e (namespaced (instanceId b') K')"
    using ne by (auto simp: trySetDecorations_def Let_def putEditor_def setDecorations_def)
  from ne r1 r2 r3 r4 r5 r6 r7 show ?thesis by blast
qed

theorem decoration_keys_namespaced_witness:
  "namespaced (instanceId (fst (new_bridge world0))) ''deco'' \<noteq>
     namespaced (instanceId (fst (new_bridge (snd (new_bridge world0))))) ''deco'' \<and>
   decorationTypes (snd (registerTextEditorDecorationType ''ext'' ''deco'' ''red''
        (fst (new_bridge world0), worldRegistered)))
      (namespaced (instanceId (fst (new_bridge (snd (new_bridge world0))))) ''deco'') =
     Some (''exthost-api-other'', ''blue'')"
proof -
  have c: "INSTANCE_COUNT world0 \<noteq> INSTANCE_COUNT (snd (new_bridge world0))"
    by (simp add: new_bridge_fields)
  have k: "namespaced (instanceId (fst (new_bridge (snd (new_bridge world0))))) ''deco'' = ''2-deco''"
    by (simp add: new_bridge_fields namespaced_def world0_def String_of.simps digit_def)
  have d: "decorationTypes worldRegistered ''2-deco'' = Some (''exthost-api-other'', ''blue'')"
    by (simp add: worldRegistered_def)
  from decoration_keys_namespaced [OF c refl refl, of "''deco''" "''deco''" "''ext''" "''red''"
      worldRegistered]
  have "namespaced (instanceId (fst (new_bridge world0))) ''deco'' \<noteq>
     namespaced (instanceId (fst (new_bridge (snd (new_bridge world0))))) ''deco'' \<and>
     decorationTypes (snd (registerTextEditorDecorationType ''ext'' ''deco'' ''red''
        (fst (new_bridge world0), worldRegistered)))
      (namespaced (instanceId (fst (new_bridge (snd (new_bridge world0))))) ''deco'') =
     decorationTypes worldRegistered
      (namespaced (instanceId (fst (new_bridge (snd (new_bridge world0))))) ''deco'')"
    by blast
  then show ?thesis by (simp add: k d)
qed

section \<open>Dispose\<close>

lemma dispose1_fields:
  "listeners (dispose1 d w) = filter (\<lambda>p. fst p \<noteq> d) (listeners w)"
  "decorationTypes (dispose1 d w) = decorationTypes w"
  by (simp_all add: dispose1_def)

lemma dispose_all_fields:
  "listeners (dispose_all ds w) = filter (\<lambda>p. fst p \<notin> set ds) (listeners w)"
  "decorationTypes (dispose_all ds w) = decorationTypes w"
proof -
  have "listeners (fold dispose1 ds w) = filter (\<lambda>p. fst p \<notin> set ds) (listeners w) \<and>
        decorationTypes (fold dispose1 ds w) = decorationTypes w"
  proof (induction ds arbitrary: w)
    case Nil
    then show ?case by simp
  next
    case (Cons d ds)
    show ?case
      by (simp add: Cons.IH dispose1_fields conj_commute)
  qed
  then show "listeners (dispose_all ds w) = filter (\<lambda>p. fst p \<notin> set ds) (listeners w)"
    and "decorationTypes (dispose_all ds w) = decorationTypes w"
    by (simp_all add: dispose_all_def)
qed

lemma dispose_opt_fields:
  "listeners (dispose_opt b w) =
     filter (\<lambda>p. \<forall>ds. b = Some ds \<longrightarrow> fst p \<notin> set ds) (listeners w)"
  "decorationTypes (dispose_opt b w) = decorationTypes w"
  by (cases b; simp add: dispose_opt_def dispose_all_fields)+

lemma dispose_bundles_fields:
  "listeners (fold (\<lambda>k. dispose_opt (m k)) ks w) =
     filter (\<lambda>p. \<forall>k \<in> set ks. \<forall>ds. m k = Some ds \<longrightarrow> fst p \<notin> set ds) (listeners w) \<and>
   decorationTypes (fold (\<lambda>k. dispose_opt (m k)) ks w) = decorationTypes w"
proof (induction ks arbitrary: w)
  case Nil
  then show ?case by simp
next
  case (Cons k ks)
  show ?case
    by (simp add: Cons.IH dispose_opt_fields conj_commute)
qed

lemma remove_all_fields:
  "listeners (fold removeDecorationType ks w) = listeners w \<and>
   decorationTypes (fold removeDecorationType ks w) =
     (\<lambda>key. if key \<in> set ks then None else decorationTypes w key)"
proof (induction ks arbitrary: w)
  case Nil
  then show ?case by simp
next
  case (Cons k ks)
  have e: "fold removeDecorationType (k # ks) w =
      fold removeDecorationType ks (removeDecorationType k w)"
    by simp
  show ?case
    using Cons.IH [of "removeDecorationType k w"]
    by (auto simp: e removeDecorationType_def)
qed

lemma dispose_bridge:
  "textEditorsListenersMap (fst (dispose bw)) = []"
  "registeredDecorationTypes (fst (dispose bw)) = []"
  "toDispose (fst (dispose bw)) = []"
  by (simp_all add: dispose_def Let_def)

lemma dispose_listeners:
  "listeners (snd (dispose bw)) =
     filter (\<lambda>p. fst p \<notin> set (toDispose (fst bw)))
       (filter (\<lambda>p. \<forall>k \<in> set (map fst (textEditorsListenersMap (fst bw))).
                  \<forall>ds. map_of (textEditorsListenersMap (fst bw)) k = Some ds \<longrightarrow> fst p \<notin> set ds)
          (listeners (snd bw)))"
  by (simp add: dispose_def Let_def remove_all_fields dispose_all_fields dispose_bundles_fields)

lemma dispose_decorationTypes:
  "decorationTypes (snd (dispose bw)) =
     (\<lambda>key. if key \<in> set (map fst (registeredDecorationTypes (fst bw))) then None
            else decorationTypes (snd bw) key)"
  by (auto simp: dispose_def Let_def remove_all_fields dispose_all_fields
      dispose_bundles_fields)

text \<open>
  C7. After dispose the listener map, the decoration registry and the store of the
  bridge's own subscriptions are empty; no disposable of any listener bundle and none
  of the bridge's own subscriptions is registered at an emitter any more; every key of
  the decoration registry is gone from the code editor service, and the registrations
  under all other keys are as they were.
\<close>

theorem dispose_releases_everything:
  "textEditorsListenersMap (fst (dispose bw)) = [] \<and>
   registeredDecorationTypes (fst (dispose bw)) = [] \<and>
   toDispose (fst (dispose bw)) = [] \<and>
   (\<forall>h ds. map_of (textEditorsListenersMap (fst bw)) h = Some ds \<longrightarrow>
      (\<forall>d \<in> set ds. d \<notin> fst ` set (listeners (snd (dispose bw))))) \<and>
   (\<forall>d \<in> set (toDispose (fst bw)). d \<notin> fst ` set (listeners (snd (dispose bw)))) \<and>
   (\<forall>key \<in> fst ` set (registeredDecorationTypes (fst bw)).
      decorationTypes (snd (dispose bw)) key = None) \<and>
   (\<forall>key. key \<notin> fst ` set (registeredDecorationTypes (fst bw)) \<longrightarrow>
      decorationTypes (snd (dispose bw)) key = decorationTypes (snd bw) key)"
proof (intro conjI allI impI ballI)
  fix h ds d
  assume m: "map_of (textEditorsListenersMap (fst bw)) h = Some ds" and d: "d \<in> set ds"
  from m have "h \<in> fst ` set (textEditorsListenersMap (fst bw))"
    by (metis map_of_eq_None_iff option.distinct(1))
  with m d show "d \<notin> fst ` set (listeners (snd (dispose bw)))"
    by (auto simp: dispose_listeners)
next
  fix d
  assume "d \<in> set (toDispose (fst bw))"
  then show "d \<notin> fst ` set (listeners (snd (dispose bw)))"
    by (auto simp: dispose_listeners)
qed (simp_all add: dispose_bridge dispose_decorationTypes)

theorem dispose_releases_everything_witness:
  "textEditorsListenersMap (fst bridgeInUse) = [(''e1'', [3, 4])] \<and>
   registeredDecorationTypes (fst bridgeInUse) = [(''1-deco'', True)] \<and>
   textEditorsListenersMap (fst (dispose bridgeInUse)) = [] \<and>
   registeredDecorationTypes (fst (dispose bridgeInUse)) = [] \<and>
   3 \<notin> fst ` set (listeners (snd (dispose bridgeInUse))) \<and>
   4 \<notin> fst ` set (listeners (snd (dispose bridgeInUse))) \<and>
   0 \<notin> fst ` set (listeners (snd (dispose bridgeInUse))) \<and>
   decorationTypes (snd (dispose bridgeInUse)) ''1-deco'' = None"
proof -
  have t: "toDispose (fst bridgeInUse) = [0, 1, 2]"
    by (simp add: bridgeInUse_def registerTextEditorDecorationType_def handleTextEditorAdded_def
        Let_def new_bridge_def subscribe_def world0_def)
  have m: "textEditorsListenersMap (fst bridgeInUse) = [(''e1'', [3, 4])]"
    by (simp add: bridgeInUse_def registerTextEditorDecorationType_def handleTextEditorAdded_def
        Let_def new_bridge_def subscribe_def world0_def editor1_def)
  have r: "registeredDecorationTypes (fst bridgeInUse) = [(''1-deco'', True)]"
    by (simp add: bridgeInUse_def registerTextEditorDecorationType_def handleTextEditorAdded_def
        Let_def new_bridge_def subscribe_def world0_def namespaced_def String_of.simps digit_def)
  note d = dispose_releases_everything [of bridgeInUse]
  note d1 = d [THEN conjunct1]
  note d2 = d [THEN conjunct2, THEN conjunct1]
  note d4 = d [THEN conjunct2, THEN conjunct2, THEN conjunct2, THEN conjunct1]
  note d5 = d [THEN conjunct2, THEN conjunct2, THEN conjunct2, THEN conjunct2, THEN conjunct1]
  note d6 = d [THEN conjunct2, THEN conjunct2, THEN conjunct2, THEN conjunct2, THEN conjunct2,
      THEN conjunct1]
  have mo: "map_of (textEditorsListenersMap (fst bridgeInUse)) ''e1'' = Some [3, 4]"
    by (simp add: m)
  have a: "3 \<notin> fst ` set (listeners (snd (dispose bridgeInUse))) \<and>
      4 \<notin> fst ` set (listeners (snd (dispose bridgeInUse)))"
    using d4 [rule_format, OF mo, of 3] d4 [rule_format, OF mo, of 4] by simp
  from d5 have b: "0 \<notin> fst ` set (listeners (snd (dispose bridgeInUse)))"
    by (simp add: t)
  from d6 have k: "decorationTypes (snd (dispose bridgeInUse)) ''1-deco'' = None"
    by (simp add: r)
  from m r d1 d2 a b k show ?thesis by simp
qed

section \<open>Editors added and removed\<close>




























section \<open>Diff information\<close>




















end
